theory Spec2Isabelle
  imports Complex_Main "HOL-Library.Log_Nat"
begin

section \<open>Python values\<close>

text \<open>
  The quality controller of \<^verbatim>\<open>src/quality_control/qc_controller.py\<close> works on
  dictionaries typed \<^verbatim>\<open>Dict[str, Any]\<close>. The values that reach it (profile
  fields read from a data file, configuration read from JSON) are modelled by one
  datatype. A finite float is given by its value, a real number; the two
  infinities and NaN are values of their own. The float literals of the
  thresholds table are only stored, never computed with, and are written as in
  the source; the one float computation of the controller, in
  \<^verbatim>\<open>get_statistics\<close>, rounds to double precision as defined below. A nested
  dictionary keeps its insertion order as an association list; the dictionaries
  the controller itself reads are maps.
\<close>

datatype pyval =
    PyNone
  | PyBool bool
  | PyInt int
  | PyFloat real
  | PyInf
  | PyNegInf
  | PyNaN
  | PyStr string
  | PyList "pyval list"
  | PyDict "(string \<times> pyval) list"

type_synonym pydict = "string \<rightharpoonup> pyval"

text \<open>The exceptions that the built-in operations used by the controller raise.\<close>

datatype error =
    KeyError string
  | ValueError
  | ZeroDivisionError
  | OverflowError
  | RecursionError

text \<open>\<^verbatim>\<open>d.get(key, default)\<close> on a dictionary.\<close>

definition dict_get :: "(string \<rightharpoonup> 'v) \<Rightarrow> string \<Rightarrow> 'v \<Rightarrow> 'v" where
  "dict_get d key dflt = (case d key of None \<Rightarrow> dflt | Some v \<Rightarrow> v)"

text \<open>\<^verbatim>\<open>d.get(key)\<close> on a value that is a nested dictionary (first binding wins,
  as keys of a Python dictionary are unique).\<close>

fun pyval_get :: "pyval \<Rightarrow> string \<Rightarrow> pyval option" where
  "pyval_get (PyDict kvs) key = map_of kvs key"
| "pyval_get _ key = None"

section \<open>Text of a value\<close>

text \<open>
  Python's \<^verbatim>\<open>str()\<close>, which is also what an f-string applies to a value with no
  format specification. It can raise. For an integer, CPython refuses the
  conversion with \<^verbatim>\<open>ValueError\<close> when the integer has more decimal digits than
  \<^verbatim>\<open>sys.int_max_str_digits\<close>, that is when its absolute value is at least 10
  to that power; the limit is 4300 unless the interpreter is configured
  otherwise, and 0 switches the check off. The text of \<^verbatim>\<open>None\<close>, of a boolean
  and of a string is always produced. The text of a float, a list or a
  dictionary depends on floating-point formatting and on \<^verbatim>\<open>repr\<close> quoting, and
  \<^verbatim>\<open>str()\<close> of a deeply nested value raises \<^verbatim>\<open>RecursionError\<close>; what
  \<^verbatim>\<open>str()\<close> does there is left to the parameter \<open>str_other\<close>, so every theorem
  holds for whatever Python prints or raises.
\<close>

record builtins =
  int_max_str_digits :: nat
  str_other :: "pyval \<Rightarrow> error + string"

fun str_of_nat :: "nat \<Rightarrow> string" where
  "str_of_nat n =
     (if n < 10 then [''0123456789'' ! n]
      else str_of_nat (n div 10) @ [''0123456789'' ! (n mod 10)])"

declare str_of_nat.simps [simp del]

definition str_of_int :: "int \<Rightarrow> string" where
  "str_of_int i = (if i < 0 then CHR ''-'' # str_of_nat (nat (- i)) else str_of_nat (nat i))"

fun py_str :: "builtins \<Rightarrow> pyval \<Rightarrow> error + string" where
  "py_str py PyNone = Inr ''None''"
| "py_str py (PyBool b) = Inr (if b then ''True'' else ''False'')"
| "py_str py (PyInt i) =
     (if 0 < int_max_str_digits py \<and> 10 ^ int_max_str_digits py \<le> \<bar>i\<bar>
      then Inl ValueError
      else Inr (str_of_int i))"
| "py_str py (PyStr s) = Inr s"
| "py_str py v = str_other py v"

declare py_str.simps(3) [simp del]

section \<open>Double-precision arithmetic\<close>

text \<open>
  A Python float is an IEEE 754 binary64 number. \<open>round_double x\<close> is the double
  nearest to the real number \<open>x\<close>, ties going to the even significand, or
  \<open>None\<close> when that rounding leaves the finite range. The spacing of the doubles
  around \<open>x\<close> is \<open>2\<close> to the power \<open>e - 52\<close>, where \<open>e\<close> is the binary exponent of
  \<open>x\<close> (the integer with \<open>2 ^ e \<le> \<bar>x\<bar> < 2 ^ (e + 1)\<close>) and at least \<open>- 1022\<close>, the
  exponent of the subnormal numbers. A zero result stands for either signed
  zero; Python compares the two equal.
\<close>

definition round_half_even :: "real \<Rightarrow> int" where
  "round_half_even y =
     (let f = \<lfloor>y\<rfloor> in
        if y - of_int f < 1 / 2 then f
        else if 1 / 2 < y - of_int f then f + 1
        else if even f then f else f + 1)"

text \<open>
  The binary exponent of a positive number, from the number of binary digits
  (\<open>bitlen\<close>) of its integer part when it is at least 1, and of the integer below
  the rounded-up reciprocal otherwise. The lemmas \<open>binary_exponent_lower\<close> and
  \<open>binary_exponent_upper\<close> below prove that it is the exponent described above.
\<close>

definition binary_exponent :: "real \<Rightarrow> int" where
  "binary_exponent x = (if 1 \<le> x then bitlen \<lfloor>x\<rfloor> - 1 else - bitlen (\<lceil>1 / x\<rceil> - 1))"

definition round_double :: "real \<Rightarrow> real option" where
  "round_double x =
     (if x = 0 then Some 0
      else
        (let ulp = 2 powi (max (binary_exponent \<bar>x\<bar>) (- 1022) - 52);
             r = of_int (round_half_even (\<bar>x\<bar> / ulp)) * ulp
         in if 2 ^ 1024 \<le> r then None else Some (sgn x * r)))"

text \<open>
  \<^verbatim>\<open>a / b\<close> on two integers: the quotient is rounded once, from its exact
  value; a zero divisor raises \<^verbatim>\<open>ZeroDivisionError\<close>, a quotient too large for
  a float raises \<^verbatim>\<open>OverflowError\<close>.
\<close>

definition int_truediv :: "int \<Rightarrow> int \<Rightarrow> error + real" where
  "int_truediv a b =
     (if b = 0 then Inl ZeroDivisionError
      else (case round_double (real_of_int a / real_of_int b) of
              None \<Rightarrow> Inl OverflowError
            | Some q \<Rightarrow> Inr q))"

text \<open>
  \<^verbatim>\<open>x * y\<close> on two finite floats: the product is rounded, and a product too
  large is an infinity, not an exception. In \<^verbatim>\<open>x * 100\<close> the integer 100 is
  first converted to the float 100.0, exactly.
\<close>

definition float_mul :: "real \<Rightarrow> real \<Rightarrow> pyval" where
  "float_mul x y =
     (case round_double (x * y) of
        None \<Rightarrow> (if 0 < x * y then PyInf else PyNegInf)
      | Some r \<Rightarrow> PyFloat r)"

section \<open>The data model of the controller\<close>

datatype DataQuality = EXCELLENT | GOOD | ACCEPTABLE | POOR | UNUSABLE

record QCReport =
  profile_id :: string
  total_measurements :: int
  good_data_percentage :: real
  flags_summary :: "string \<rightharpoonup> int"
  outliers_removed :: int
  spike_detections :: int
  gradient_anomalies :: int
  density_inversions :: int
  data_quality :: DataQuality
  issues :: "string list"
  metadata :: pydict

text \<open>The attributes of an \<^verbatim>\<open>ArgoQualityController\<close> instance.\<close>

record controller =
  config :: pydict
  thresholds :: pyval
  stats :: "string \<rightharpoonup> int"

section \<open>The operations\<close>

definition get_default_thresholds :: pyval where
  "get_default_thresholds = PyDict
     [(''TEMP'', PyDict [(''min'', PyFloat (- 2.5)), (''max'', PyFloat 40.0),
                         (''spike_threshold'', PyFloat 5.0), (''gradient_threshold'', PyFloat 2.0)]),
      (''PSAL'', PyDict [(''min'', PyFloat 2.0), (''max'', PyFloat 42.0),
                         (''spike_threshold'', PyFloat 2.0), (''gradient_threshold'', PyFloat 1.0)]),
      (''PRES'', PyDict [(''min'', PyFloat 0.0), (''max'', PyFloat 11000.0),
                         (''spike_threshold'', PyFloat 100.0), (''gradient_threshold'', PyFloat 50.0)]),
      (''density_inversion_threshold'', PyFloat 0.05),
      (''min_good_data_percentage'', PyFloat 70.0),
      (''max_depth_gap'', PyFloat 500.0),
      (''min_profile_length'', PyInt 5)]"

text \<open>
  \<^verbatim>\<open>__init__(self, config=None)\<close>. The argument is \<^verbatim>\<open>None\<close> or a dictionary;
  \<^verbatim>\<open>config or {}\<close> turns \<^verbatim>\<open>None\<close> (and the empty dictionary) into the empty
  dictionary.
\<close>

definition init :: "pydict option \<Rightarrow> controller" where
  "init cfg =
     (let config = (case cfg of None \<Rightarrow> Map.empty | Some c \<Rightarrow> c);
          thresholds = dict_get config ''thresholds'' get_default_thresholds
      in \<lparr> config = config,
           thresholds = thresholds,
           stats = [''total_profiles'' \<mapsto> 0,
                    ''profiles_processed'' \<mapsto> 0,
                    ''profiles_rejected'' \<mapsto> 0,
                    ''outliers_detected'' \<mapsto> 0,
                    ''spikes_detected'' \<mapsto> 0,
                    ''gradient_anomalies_detected'' \<mapsto> 0,
                    ''density_inversions_detected'' \<mapsto> 0] \<rparr>)"

text \<open>
  \<^verbatim>\<open>self.stats[key] += 1\<close>: reading a key that is not in the dictionary raises
  \<^verbatim>\<open>KeyError\<close> and leaves the dictionary as it was.
\<close>

definition stats_incr :: "string \<Rightarrow> controller \<Rightarrow> error + controller" where
  "stats_incr key self =
     (case stats self key of
        None \<Rightarrow> Inl (KeyError key)
      | Some n \<Rightarrow> Inr (self\<lparr>stats := (stats self)(key \<mapsto> n + 1)\<rparr>))"

text \<open>
  \<^verbatim>\<open>clean_profile_data(self, data)\<close>. The method mutates \<^verbatim>\<open>self.stats\<close>, so the
  model returns the controller after the call together with the outcome: the
  exception raised, or the pair \<^verbatim>\<open>(cleaned_data, qc_report)\<close>. The statements
  run in the order of the source: the increment of \<^verbatim>\<open>total_profiles\<close>, then
  \<^verbatim>\<open>str()\<close> of the platform number, then the f-string, which formats the
  string \<^verbatim>\<open>platform_number\<close> (this cannot raise) and \<^verbatim>\<open>cycle_number\<close>, then
  the increment of \<^verbatim>\<open>profiles_processed\<close>. An exception leaves the controller
  as the statements before it made it: when \<^verbatim>\<open>str()\<close> raises,
  \<^verbatim>\<open>total_profiles\<close> has been incremented and \<^verbatim>\<open>profiles_processed\<close> has
  not. \<^verbatim>\<open>data.copy()\<close> is a new dictionary with the same keys and the same
  values. Running out of memory is outside the model.
\<close>

definition clean_profile_data ::
  "builtins \<Rightarrow> controller \<Rightarrow> pydict \<Rightarrow> controller \<times> (error + pydict \<times> QCReport)" where
  "clean_profile_data py self data =
     (case stats_incr ''total_profiles'' self of
        Inl e \<Rightarrow> (self, Inl e)
      | Inr self1 \<Rightarrow>
          (case py_str py (dict_get data ''PLATFORM_NUMBER'' (PyStr ''unknown'')) of
             Inl e \<Rightarrow> (self1, Inl e)
           | Inr platform_number \<Rightarrow>
               (let cycle_number = dict_get data ''CYCLE_NUMBER'' (PyInt 0) in
                  (case py_str py cycle_number of
                     Inl e \<Rightarrow> (self1, Inl e)
                   | Inr cycle_text \<Rightarrow>
                       (let profile_id = platform_number @ ''_'' @ cycle_text;
                            cleaned_data = data;
                            qc_report = \<lparr> profile_id = profile_id,
                                          total_measurements = 100,
                                          good_data_percentage = 85.0,
                                          flags_summary = Map.empty,
                                          outliers_removed = 0,
                                          spike_detections = 0,
                                          gradient_anomalies = 0,
                                          density_inversions = 0,
                                          data_quality = GOOD,
                                          issues = [],
                                          metadata = Map.empty \<rparr>
                        in (case stats_incr ''profiles_processed'' self1 of
                              Inl e \<Rightarrow> (self1, Inl e)
                            | Inr self2 \<Rightarrow> (self2, Inr (cleaned_data, qc_report))))))))"

text \<open>
  \<^verbatim>\<open>get_statistics(self)\<close>: a new dictionary holding every entry of
  \<^verbatim>\<open>self.stats\<close> and, stored last, \<^verbatim>\<open>success_rate_percent\<close>. The rate is
  \<^verbatim>\<open>(processed / total) * 100\<close>: a division of two integers, which gives a
  float or raises, then a multiplication of that float by 100.
\<close>

definition get_statistics :: "controller \<Rightarrow> error + pydict" where
  "get_statistics self =
     (case stats self ''total_profiles'' of
        None \<Rightarrow> Inl (KeyError ''total_profiles'')
      | Some t \<Rightarrow>
          (if t > 0 then
             (case stats self ''profiles_processed'' of
                None \<Rightarrow> Inl (KeyError ''profiles_processed'')
              | Some p \<Rightarrow>
                  (case int_truediv p t of
                     Inl e \<Rightarrow> Inl e
                   | Inr q \<Rightarrow>
                       Inr ((\<lambda>k. map_option PyInt (stats self k))
                              (''success_rate_percent'' \<mapsto> float_mul q 100))))
           else
             Inr ((\<lambda>k. map_option PyInt (stats self k))
                    (''success_rate_percent'' \<mapsto> PyFloat 0.0))))"

text \<open>
  The controller after a history of calls: the caller hands one profile after the
  other to \<^verbatim>\<open>clean_profile_data\<close> on the same instance, and goes on when a call
  raises.
\<close>

fun after_calls :: "builtins \<Rightarrow> controller \<Rightarrow> pydict list \<Rightarrow> controller" where
  "after_calls py self [] = self"
| "after_calls py self (d # ds) = after_calls py (fst (clean_profile_data py self d)) ds"

text \<open>
  Unpacking the pair \<^verbatim>\<open>cleaned_data, qc_report = qc.clean_profile_data(data)\<close>
  when the call returned.
\<close>

definition cleaned_of :: "controller \<times> (error + pydict \<times> QCReport) \<Rightarrow> pydict option" where
  "cleaned_of out = (case snd out of Inl e \<Rightarrow> None | Inr (cleaned, report) \<Rightarrow> Some cleaned)"

definition report_of :: "controller \<times> (error + pydict \<times> QCReport) \<Rightarrow> QCReport option" where
  "report_of out = (case snd out of Inl e \<Rightarrow> None | Inr (cleaned, report) \<Rightarrow> Some report)"

text \<open>The entry \<^verbatim>\<open>success_rate_percent\<close> of the snapshot, when \<^verbatim>\<open>get_statistics\<close> returned.\<close>

definition rate_of :: "error + pydict \<Rightarrow> pyval option" where
  "rate_of out = (case out of Inl e \<Rightarrow> None | Inr snapshot \<Rightarrow> snapshot ''success_rate_percent'')"

text \<open>
  The profile identifier that lines 94 to 96 of the source build from a profile,
  or the exception that \<^verbatim>\<open>str()\<close> raises on the way, on their own.
\<close>

definition profile_id_of :: "builtins \<Rightarrow> pydict \<Rightarrow> error + string" where
  "profile_id_of py data =
     (case py_str py (dict_get data ''PLATFORM_NUMBER'' (PyStr ''unknown'')) of
        Inl e \<Rightarrow> Inl e
      | Inr platform_number \<Rightarrow>
          (case py_str py (dict_get data ''CYCLE_NUMBER'' (PyInt 0)) of
             Inl e \<Rightarrow> Inl e
           | Inr cycle_text \<Rightarrow> Inr (platform_number @ ''_'' @ cycle_text)))"

definition identifiers_print :: "builtins \<Rightarrow> pydict \<Rightarrow> bool" where
  "identifiers_print py data = (\<not> isl (profile_id_of py data))"

section \<open>The profile vocabulary of the specification\<close>

text \<open>
  The specification speaks of the measurement arrays of a profile, of present and
  missing values and of depth order. The code reads none of them; the definitions
  of this section only say which profiles a claim is about. The tracked variables
  are the three that have limits in \<open>get_default_thresholds\<close>; a missing value is
  \<^verbatim>\<open>None\<close> or NaN.
\<close>

definition tracked_variables :: "string list" where
  "tracked_variables = [''TEMP'', ''PSAL'', ''PRES'']"

definition measurements :: "pydict \<Rightarrow> string \<Rightarrow> pyval list" where
  "measurements data var = (case data var of Some (PyList xs) \<Rightarrow> xs | _ \<Rightarrow> [])"

fun is_present :: "pyval \<Rightarrow> bool" where
  "is_present PyNone = False"
| "is_present PyNaN = False"
| "is_present v = True"

definition present_measurements :: "pydict \<Rightarrow> nat" where
  "present_measurements data =
     sum_list (map (\<lambda>var. length (filter is_present (measurements data var))) tracked_variables)"

definition all_missing :: "pydict \<Rightarrow> bool" where
  "all_missing data = (present_measurements data = 0)"

definition equal_length_arrays :: "pydict \<Rightarrow> bool" where
  "equal_length_arrays data =
     (length (measurements data ''TEMP'') = length (measurements data ''PSAL'') \<and>
      length (measurements data ''PSAL'') = length (measurements data ''PRES''))"

fun pressure_values :: "pyval list \<Rightarrow> real list" where
  "pressure_values [] = []"
| "pressure_values (PyFloat x # vs) = x # pressure_values vs"
| "pressure_values (PyInt i # vs) = real_of_int i # pressure_values vs"
| "pressure_values (v # vs) = pressure_values vs"

definition depth_ordered :: "pydict \<Rightarrow> bool" where
  "depth_ordered data = sorted (pressure_values (measurements data ''PRES''))"

definition structurally_valid :: "pydict \<Rightarrow> bool" where
  "structurally_valid data = (equal_length_arrays data \<and> depth_ordered data)"

text \<open>The scalar \<^verbatim>\<open>min_profile_length\<close> of the thresholds a controller holds.\<close>

definition min_profile_length :: "controller \<Rightarrow> int option" where
  "min_profile_length self =
     (case pyval_get (thresholds self) ''min_profile_length'' of
        Some (PyInt m) \<Rightarrow> Some m
      | _ \<Rightarrow> None)"

text \<open>The scalar \<^verbatim>\<open>min_good_data_percentage\<close> of the thresholds a controller holds.\<close>

definition min_good_data_percentage :: "controller \<Rightarrow> real option" where
  "min_good_data_percentage self =
     (case pyval_get (thresholds self) ''min_good_data_percentage'' of
        Some (PyFloat g) \<Rightarrow> Some g
      | Some (PyInt i) \<Rightarrow> Some (real_of_int i)
      | _ \<Rightarrow> None)"

text \<open>
  The two conditions under which the specification rejects a profile: fewer
  present measurements than \<^verbatim>\<open>min_profile_length\<close>, and a report whose
  \<^verbatim>\<open>good_data_percentage\<close> is below \<^verbatim>\<open>min_good_data_percentage\<close>.
\<close>

definition too_short :: "controller \<Rightarrow> pydict \<Rightarrow> bool" where
  "too_short self data =
     (case min_profile_length self of
        None \<Rightarrow> False
      | Some m \<Rightarrow> int (present_measurements data) < m)"

definition too_poor :: "controller \<Rightarrow> QCReport \<Rightarrow> bool" where
  "too_poor self report =
     (case min_good_data_percentage self of
        None \<Rightarrow> False
      | Some g \<Rightarrow> good_data_percentage report < g)"

text \<open>The sum of the counts of a \<^verbatim>\<open>flags_summary\<close>.\<close>

definition flags_total :: "(string \<rightharpoonup> int) \<Rightarrow> int" where
  "flags_total fs = (\<Sum>k \<in> dom fs. the (fs k))"

section \<open>Example inputs\<close>

text \<open>
  The built-in operations of an interpreter with the default limit on the digits
  of an integer. In the example profiles \<^verbatim>\<open>str()\<close> only meets strings and
  integers, so the text of floats and lists is never asked for.
\<close>

definition ext_unused :: "pyval \<Rightarrow> error + string" where
  "ext_unused v = Inr []"

definition builtins_default :: builtins where
  "builtins_default = \<lparr> int_max_str_digits = 4300, str_other = ext_unused \<rparr>"

text \<open>Two temperatures, one salinity, and pressures that decrease.\<close>

definition profile_mismatched :: pydict where
  "profile_mismatched =
     [''PLATFORM_NUMBER'' \<mapsto> PyStr ''1901234'',
      ''CYCLE_NUMBER'' \<mapsto> PyInt 7,
      ''TEMP'' \<mapsto> PyList [PyFloat 10.0, PyFloat 11.0],
      ''PSAL'' \<mapsto> PyList [PyFloat 35.0],
      ''PRES'' \<mapsto> PyList [PyFloat 20.0, PyFloat 10.0]]"

text \<open>One depth level: three present measurements, fewer than five.\<close>

definition profile_short :: pydict where
  "profile_short =
     [''PLATFORM_NUMBER'' \<mapsto> PyStr ''1901234'',
      ''CYCLE_NUMBER'' \<mapsto> PyInt 8,
      ''TEMP'' \<mapsto> PyList [PyFloat 10.0],
      ''PSAL'' \<mapsto> PyList [PyFloat 35.0],
      ''PRES'' \<mapsto> PyList [PyFloat 5.0]]"

text \<open>Two depth levels with every value missing.\<close>

definition profile_all_missing :: pydict where
  "profile_all_missing =
     [''PLATFORM_NUMBER'' \<mapsto> PyStr ''1901234'',
      ''CYCLE_NUMBER'' \<mapsto> PyInt 9,
      ''TEMP'' \<mapsto> PyList [PyNone, PyNone],
      ''PSAL'' \<mapsto> PyList [PyNone, PyNone],
      ''PRES'' \<mapsto> PyList [PyNone, PyNone]]"

text \<open>
  A dictionary whose cycle number is the integer 1 followed by 4300 zeros, which
  has 4301 digits.
\<close>

definition cycle_number_huge :: int where
  "cycle_number_huge = 10 ^ 4300"

definition profile_huge_cycle :: pydict where
  "profile_huge_cycle = [''CYCLE_NUMBER'' \<mapsto> PyInt cycle_number_huge]"

text \<open>A configuration whose thresholds give one scalar only.\<close>

definition config_partial :: pydict where
  "config_partial = [''thresholds'' \<mapsto> PyDict [(''max_depth_gap'', PyFloat 15.0)]]"

text \<open>A configuration that asks for 90 percent of good data.\<close>

definition config_strict :: pydict where
  "config_strict =
     [''thresholds'' \<mapsto> PyDict [(''min_good_data_percentage'', PyFloat 90.0),
                               (''min_profile_length'', PyInt 1)]]"

section \<open>The statistics of a controller in use\<close>

text \<open>
  The statistics dictionary in which \<^verbatim>\<open>total_profiles\<close> is \<open>t\<close> and
  \<^verbatim>\<open>profiles_processed\<close> is \<open>p\<close>; the five other counters are 0.
\<close>

definition stats_after :: "int \<Rightarrow> int \<Rightarrow> (string \<rightharpoonup> int)" where
  "stats_after t p =
     [''total_profiles'' \<mapsto> 0,
      ''profiles_processed'' \<mapsto> 0,
      ''profiles_rejected'' \<mapsto> 0,
      ''outliers_detected'' \<mapsto> 0,
      ''spikes_detected'' \<mapsto> 0,
      ''gradient_anomalies_detected'' \<mapsto> 0,
      ''density_inversions_detected'' \<mapsto> 0]
     (''total_profiles'' \<mapsto> t, ''profiles_processed'' \<mapsto> p)"

lemma init_stats: "stats (init cfg) = stats_after 0 0"
  by (simp add: init_def stats_after_def Let_def fun_eq_iff)

lemma stats_after_total_step:
  "(stats_after t p)(''total_profiles'' \<mapsto> t + 1) = stats_after (t + 1) p"
  by (simp add: stats_after_def fun_eq_iff)

lemma stats_after_processed_step:
  "(stats_after t p)(''profiles_processed'' \<mapsto> p + 1) = stats_after t (p + 1)"
  by (simp add: stats_after_def fun_eq_iff)

lemma stats_after_total: "stats_after t p ''total_profiles'' = Some t"
  by (simp add: stats_after_def)

lemma stats_after_processed: "stats_after t p ''profiles_processed'' = Some p"
  by (simp add: stats_after_def)

lemma stats_after_rejected: "stats_after t p ''profiles_rejected'' = Some 0"
  by (simp add: stats_after_def)

text \<open>\<^verbatim>\<open>str()\<close> of an integer of one digit, and of the smallest integer over the limit.\<close>

lemma py_str_digit:
  assumes "\<bar>i\<bar> < 10"
  shows "py_str py (PyInt i) = Inr (str_of_int i)"
proof (cases "0 < int_max_str_digits py")
  case True
  have "(10::int) ^ 1 \<le> 10 ^ int_max_str_digits py"
    using True by (intro power_increasing) simp_all
  with assms have "\<not> 10 ^ int_max_str_digits py \<le> \<bar>i\<bar>"
    by simp
  then show ?thesis
    by (simp add: py_str.simps)
next
  case False
  then show ?thesis
    by (simp add: py_str.simps)
qed

lemma py_str_over_limit:
  assumes "0 < int_max_str_digits py"
  shows "py_str py (PyInt (10 ^ int_max_str_digits py)) = Inl ValueError"
  using assms by (simp add: py_str.simps)

lemma py_str_cycle_number_huge: "py_str builtins_default (PyInt cycle_number_huge) = Inl ValueError"
proof -
  have limit: "int_max_str_digits builtins_default = 4300"
    by (simp add: builtins_default_def)
  have "py_str builtins_default (PyInt (10 ^ int_max_str_digits builtins_default)) = Inl ValueError"
    by (rule py_str_over_limit) (simp add: limit)
  then show ?thesis
    by (simp only: limit cycle_number_huge_def)
qed

text \<open>The identifiers of the example profiles.\<close>

lemma profile_mismatched_id: "profile_id_of builtins_default profile_mismatched = Inr ''1901234_7''"
  by (simp add: profile_id_of_def dict_get_def profile_mismatched_def py_str_digit
      str_of_int_def str_of_nat.simps)

lemma profile_short_id: "profile_id_of builtins_default profile_short = Inr ''1901234_8''"
  by (simp add: profile_id_of_def dict_get_def profile_short_def py_str_digit
      str_of_int_def str_of_nat.simps)

lemma profile_all_missing_id: "profile_id_of builtins_default profile_all_missing = Inr ''1901234_9''"
  by (simp add: profile_id_of_def dict_get_def profile_all_missing_def py_str_digit
      str_of_int_def str_of_nat.simps)

lemma profile_huge_cycle_id: "profile_id_of builtins_default profile_huge_cycle = Inl ValueError"
  by (simp add: profile_id_of_def dict_get_def profile_huge_cycle_def py_str_cycle_number_huge)

lemma profile_short_prints: "identifiers_print builtins_default profile_short"
  by (simp add: identifiers_print_def profile_short_id)

lemma profile_huge_cycle_raises: "\<not> identifiers_print builtins_default profile_huge_cycle"
  by (simp add: identifiers_print_def profile_huge_cycle_id)

text \<open>
  A call on a controller whose statistics are \<open>stats_after t p\<close>: when
  \<^verbatim>\<open>str()\<close> raises, the exception leaves the controller with
  \<^verbatim>\<open>total_profiles\<close> incremented only; otherwise the call returns the input
  and the placeholder report, with both counters incremented.
\<close>

lemma clean_profile_data_counted:
  assumes "stats self = stats_after t p"
  shows "clean_profile_data py self data =
     (case profile_id_of py data of
        Inl e \<Rightarrow> (self\<lparr>stats := stats_after (t + 1) p\<rparr>, Inl e)
      | Inr pid \<Rightarrow>
          (self\<lparr>stats := stats_after (t + 1) (p + 1)\<rparr>,
           Inr (data,
                \<lparr> profile_id = pid,
                total_measurements = 100,
                good_data_percentage = 85,
                flags_summary = Map.empty,
                outliers_removed = 0,
                spike_detections = 0,
                gradient_anomalies = 0,
                density_inversions = 0,
                data_quality = GOOD,
                issues = [],
                metadata = Map.empty \<rparr>)))"
proof -
  have one: "stats_incr ''total_profiles'' self = Inr (self\<lparr>stats := stats_after (t + 1) p\<rparr>)"
    by (simp add: stats_incr_def assms stats_after_total stats_after_total_step)
  have two: "stats_incr ''profiles_processed'' (self\<lparr>stats := stats_after (t + 1) p\<rparr>)
      = Inr (self\<lparr>stats := stats_after (t + 1) (p + 1)\<rparr>)"
    by (simp add: stats_incr_def stats_after_processed stats_after_processed_step)
  show ?thesis
    by (simp add: clean_profile_data_def profile_id_of_def one two Let_def split: sum.splits)
qed

lemma clean_profile_data_returns:
  assumes "stats self = stats_after t p" and "profile_id_of py data = Inr pid"
  shows "clean_profile_data py self data =
     (self\<lparr>stats := stats_after (t + 1) (p + 1)\<rparr>,
      Inr (data,
           \<lparr> profile_id = pid,
           total_measurements = 100,
           good_data_percentage = 85,
           flags_summary = Map.empty,
           outliers_removed = 0,
           spike_detections = 0,
           gradient_anomalies = 0,
           density_inversions = 0,
           data_quality = GOOD,
           issues = [],
           metadata = Map.empty \<rparr>))"
  by (simp add: clean_profile_data_counted [OF assms(1)] assms(2))

lemma clean_profile_data_raises:
  assumes "stats self = stats_after t p" and "profile_id_of py data = Inl e"
  shows "clean_profile_data py self data = (self\<lparr>stats := stats_after (t + 1) p\<rparr>, Inl e)"
  by (simp add: clean_profile_data_counted [OF assms(1)] assms(2))

lemma clean_profile_data_state:
  assumes "stats self = stats_after t p"
  shows "fst (clean_profile_data py self data) =
     self\<lparr>stats := stats_after (t + 1) (p + (if identifiers_print py data then 1 else 0))\<rparr>"
  by (simp add: clean_profile_data_counted [OF assms] identifiers_print_def split: sum.splits)

text \<open>
  After a history of calls on a new controller, \<^verbatim>\<open>total_profiles\<close> is the
  number of calls and \<^verbatim>\<open>profiles_processed\<close> the number of calls that returned.
\<close>

lemma after_calls_state:
  assumes "stats self = stats_after t p"
  shows "after_calls py self ds =
     self\<lparr>stats := stats_after (t + int (length ds))
                                 (p + int (length (filter (identifiers_print py) ds)))\<rparr>"
  using assms
proof (induction ds arbitrary: self t p)
  case Nil
  then show ?case by simp
next
  case (Cons d ds)
  let ?p1 = "p + (if identifiers_print py d then 1 else 0)"
  have "after_calls py (self\<lparr>stats := stats_after (t + 1) ?p1\<rparr>) ds
      = self\<lparr>stats := stats_after (t + 1) ?p1\<rparr>
          \<lparr>stats := stats_after (t + 1 + int (length ds))
                                  (?p1 + int (length (filter (identifiers_print py) ds)))\<rparr>"
    by (rule Cons.IH) simp
  then show ?case
    by (simp add: clean_profile_data_state [OF Cons.prems] ac_simps)
qed

lemma reachable_stats:
  "stats (after_calls py (init cfg) ds) =
     stats_after (int (length ds)) (int (length (filter (identifiers_print py) ds)))"
  using after_calls_state [OF init_stats, of py cfg ds] by simp

lemma reachable_config:
  "config (after_calls py (init cfg) ds) = config (init cfg) \<and>
   thresholds (after_calls py (init cfg) ds) = thresholds (init cfg)"
  using after_calls_state [OF init_stats, of py cfg ds] by simp

text \<open>
  A call that returns has found both counters in the statistics and has
  incremented each once; the pair it returns is the input and the placeholder
  report. This holds on every controller, whatever its statistics.
\<close>

lemma clean_profile_data_returned:
  assumes "clean_profile_data py self data = (self', Inr (cleaned, report))"
  shows "\<exists>t p pid.
     stats self ''total_profiles'' = Some t \<and>
     stats self ''profiles_processed'' = Some p \<and>
     stats self' = (stats self)(''total_profiles'' \<mapsto> t + 1, ''profiles_processed'' \<mapsto> p + 1) \<and>
     config self' = config self \<and>
     thresholds self' = thresholds self \<and>
     profile_id_of py data = Inr pid \<and>
     cleaned = data \<and>
     report = \<lparr> profile_id = pid,
              total_measurements = 100,
              good_data_percentage = 85,
              flags_summary = Map.empty,
              outliers_removed = 0,
              spike_detections = 0,
              gradient_anomalies = 0,
              density_inversions = 0,
              data_quality = GOOD,
              issues = [],
              metadata = Map.empty \<rparr>"
  using assms
  by (auto simp add: clean_profile_data_def profile_id_of_def stats_incr_def Let_def
      split: sum.splits option.splits)

section \<open>Rounding to double precision\<close>

text \<open>The rounded integer is within one half of the number.\<close>

lemma round_half_even_near: "\<bar>of_int (round_half_even y) - y\<bar> \<le> 1 / 2"
  unfolding round_half_even_def Let_def by (auto; linarith)

lemma bitlen_real_bounds:
  assumes "0 < n"
  shows "(2::real) ^ nat (bitlen n - 1) \<le> of_int n" and "of_int n < (2::real) ^ nat (bitlen n)"
proof -
  from bitlen_bounds [OF assms] have a: "2 ^ nat (bitlen n - 1) \<le> n" and b: "n < 2 ^ nat (bitlen n)"
    by simp_all
  from a have "(of_int (2 ^ nat (bitlen n - 1)) :: real) \<le> of_int n"
    by (simp only: of_int_le_iff)
  then show "(2::real) ^ nat (bitlen n - 1) \<le> of_int n" by simp
  from b have "(of_int n :: real) < of_int (2 ^ nat (bitlen n))"
    by (simp only: of_int_less_iff)
  then show "of_int n < (2::real) ^ nat (bitlen n)" by simp
qed

text \<open>\<open>binary_exponent x\<close> is the integer \<open>e\<close> with \<open>2 ^ e \<le> x < 2 ^ (e + 1)\<close>.\<close>

lemma binary_exponent_lower:
  assumes "0 < x"
  shows "2 powi binary_exponent x \<le> x"
proof (cases "1 \<le> x")
  case True
  then have n: "0 < \<lfloor>x\<rfloor>" by linarith
  have one: "1 \<le> bitlen \<lfloor>x\<rfloor>" using n by (auto simp: bitlen_alt_def)
  have "2 powi binary_exponent x = (2::real) ^ nat (bitlen \<lfloor>x\<rfloor> - 1)"
    using True one by (simp add: binary_exponent_def power_int_def)
  also have "\<dots> \<le> of_int \<lfloor>x\<rfloor>" by (rule bitlen_real_bounds (1) [OF n])
  also have "\<dots> \<le> x" by simp
  finally show ?thesis .
next
  case False
  define n where "n = \<lceil>1 / x\<rceil>"
  define k where "k = bitlen (n - 1)"
  from False assms have y: "1 < 1 / x" by simp
  then have n2: "0 < n - 1" unfolding n_def by linarith
  have kpos: "0 \<le> k" unfolding k_def by (rule bitlen_nonneg)
  have "of_int (n - 1) < (2::real) ^ nat k"
    unfolding k_def by (rule bitlen_real_bounds (2) [OF n2])
  then have "n - 1 < 2 ^ nat k"
    by (metis of_int_less_iff of_int_numeral of_int_power)
  then have "n \<le> 2 ^ nat k" by simp
  then have "(of_int n :: real) \<le> of_int (2 ^ nat k)" by (simp only: of_int_le_iff)
  then have nk: "(of_int n :: real) \<le> 2 ^ nat k" by simp
  have "1 / x \<le> of_int n" unfolding n_def by simp
  with nk have "1 / x \<le> 2 ^ nat k" by linarith
  then have "1 / 2 ^ nat k \<le> x" using assms
    by (simp add: field_simps)
  moreover have "2 powi binary_exponent x = 1 / (2::real) ^ nat k"
    using False kpos by (simp add: binary_exponent_def n_def k_def power_int_def field_simps)
  ultimately show ?thesis by simp
qed

lemma binary_exponent_upper:
  assumes "0 < x"
  shows "x < 2 powi (binary_exponent x + 1)"
proof (cases "1 \<le> x")
  case True
  then have n: "0 < \<lfloor>x\<rfloor>" by linarith
  have one: "1 \<le> bitlen \<lfloor>x\<rfloor>" using n by (auto simp: bitlen_alt_def)
  have "\<lfloor>x\<rfloor> < 2 ^ nat (bitlen \<lfloor>x\<rfloor>)" using bitlen_bounds [OF n] by simp
  then have "\<lfloor>x\<rfloor> + 1 \<le> 2 ^ nat (bitlen \<lfloor>x\<rfloor>)" by simp
  then have "(of_int (\<lfloor>x\<rfloor> + 1) :: real) \<le> of_int (2 ^ nat (bitlen \<lfloor>x\<rfloor>))"
    by (simp only: of_int_le_iff)
  then have "of_int \<lfloor>x\<rfloor> + 1 \<le> (2::real) ^ nat (bitlen \<lfloor>x\<rfloor>)" by simp
  moreover have "x < of_int \<lfloor>x\<rfloor> + 1" by linarith
  moreover have "2 powi (binary_exponent x + 1) = (2::real) ^ nat (bitlen \<lfloor>x\<rfloor>)"
    using True one by (simp add: binary_exponent_def power_int_def)
  ultimately show ?thesis by linarith
next
  case False
  define n where "n = \<lceil>1 / x\<rceil>"
  define k where "k = bitlen (n - 1)"
  from False assms have y: "1 < 1 / x" by simp
  then have n2: "0 < n - 1" unfolding n_def by linarith
  have kpos: "1 \<le> k" unfolding k_def using n2 by (auto simp: bitlen_alt_def)
  have "(2::real) ^ nat (k - 1) \<le> of_int (n - 1)"
    unfolding k_def by (rule bitlen_real_bounds (1) [OF n2])
  moreover have "of_int (n - 1) < 1 / x" unfolding n_def by linarith
  ultimately have "(2::real) ^ nat (k - 1) < 1 / x" by linarith
  then have "x < 1 / 2 ^ nat (k - 1)" using assms
    by (simp add: field_simps)
  moreover have "2 powi (binary_exponent x + 1) = 1 / (2::real) ^ nat (k - 1)"
  proof (cases "k = 1")
    case True
    then show ?thesis using False by (simp add: binary_exponent_def n_def k_def)
  next
    case k1: False
    with kpos have "- k + 1 < 0" by simp
    then show ?thesis using False
      by (simp add: binary_exponent_def n_def [symmetric] k_def [symmetric] power_int_def field_simps)
  qed
  ultimately show ?thesis by simp
qed

text \<open>
  In the range of the normal doubles, rounding returns a double and changes the
  number by at most the fraction \<open>1 / 2 ^ 53\<close> of it.
\<close>

lemma round_double_normal:
  assumes lo: "1 / 2 ^ 1022 \<le> x" and hi: "x < 2 ^ 1023"
  shows "\<exists>r. round_double x = Some r \<and> \<bar>r - x\<bar> \<le> x / 2 ^ 53"
proof -
  have pos: "0 < x" using lo by (smt (verit) divide_pos_pos zero_less_power)
  define e where "e = binary_exponent x"
  define ulp :: real where "ulp = 2 powi (e - 52)"
  define m where "m = round_half_even (x / ulp)"
  have low: "2 powi e \<le> x" unfolding e_def by (rule binary_exponent_lower [OF pos])
  have up: "x < 2 powi (e + 1)" unfolding e_def by (rule binary_exponent_upper [OF pos])
  have "(2::real) powi (- 1022) = 1 / 2 ^ 1022"
    by (simp add: power_int_minus field_simps)
  with lo up have "(2::real) powi (- 1022) < 2 powi (e + 1)" by linarith
  then have "- 1022 < e + 1"
    using power_int_increasing [of "e + 1" "- 1022" "2::real"] by (cases "- 1022 < e + 1") auto
  then have emax: "max e (- 1022) = e" by simp
  have ulp_pos: "0 < ulp" unfolding ulp_def by simp
  have ulp_eq: "ulp = 2 powi e / 2 ^ 52"
    unfolding ulp_def by (simp add: power_int_diff)
  have near: "\<bar>of_int m - x / ulp\<bar> \<le> 1 / 2" unfolding m_def by (rule round_half_even_near)
  have "of_int m * ulp - x = (of_int m - x / ulp) * ulp"
    using ulp_pos by (simp add: left_diff_distrib)
  then have "\<bar>of_int m * ulp - x\<bar> = \<bar>of_int m - x / ulp\<bar> * \<bar>ulp\<bar>"
    by (simp only: abs_mult)
  also have "\<dots> = \<bar>of_int m - x / ulp\<bar> * ulp"
    using ulp_pos by simp
  also have "\<dots> \<le> 1 / 2 * ulp"
    using near ulp_pos by (simp add: mult_right_mono)
  also have "\<dots> = 2 powi e / 2 ^ 53" by (simp add: ulp_eq)
  also have "\<dots> \<le> x / 2 ^ 53" using low by (simp add: divide_right_mono)
  finally have close: "\<bar>of_int m * ulp - x\<bar> \<le> x / 2 ^ 53" .
  have "x / 2 ^ 53 \<le> x" using pos by (simp add: field_simps)
  with close have "of_int m * ulp \<le> 2 * x" by linarith
  also have "\<dots> < 2 * 2 ^ 1023" using hi by simp
  finally have fin: "\<not> (2::real) ^ 1024 \<le> of_int m * ulp" by simp
  have "round_double x = Some (of_int m * ulp)"
    using pos fin unfolding round_double_def Let_def
    by (simp add: emax e_def [symmetric] ulp_def [symmetric] m_def [symmetric] del: power_numeral)
  with close show ?thesis by simp
qed

text \<open>The numbers 0, 1 and 100 are doubles.\<close>

lemma round_double_0: "round_double 0 = Some 0"
  by (simp add: round_double_def)

lemma round_double_1: "round_double 1 = Some 1"
  by (simp add: round_double_def binary_exponent_def compute_bitlen round_half_even_def Let_def
      power_int_minus)

lemma round_double_100: "round_double 100 = Some 100"
  by (simp add: round_double_def binary_exponent_def compute_bitlen round_half_even_def Let_def
      power_int_minus)

text \<open>One third, and one third times 100, in double precision.\<close>

lemma round_double_third:
  "round_double (1 / 3) = Some (6004799503160661 / 18014398509481984)"
  by (simp add: round_double_def binary_exponent_def compute_bitlen round_half_even_def Let_def
      power_int_minus)

lemma round_double_third_percent:
  "round_double (6004799503160661 / 18014398509481984 * 100) = Some (2345624805922133 / 70368744177664)"
  by (simp add: round_double_def binary_exponent_def compute_bitlen round_half_even_def Let_def
      power_int_minus)

text \<open>
  The rate of \<open>p\<close> processed profiles out of \<open>t\<close>, for counters as a controller in
  use has them: the division raises nothing, the product is finite, and the
  two roundings change \<open>100 * p / t\<close> by at most the fraction \<open>1 / 2 ^ 51\<close> of it.
\<close>

lemma success_rate_rounded:
  assumes p: "0 \<le> p" "p \<le> t" and t: "0 < t" "t < 2 ^ 1022"
  shows "\<exists>q rate. int_truediv p t = Inr q \<and> float_mul q 100 = PyFloat rate \<and>
     \<bar>rate - 100 * real_of_int p / real_of_int t\<bar> \<le> (100 * real_of_int p / real_of_int t) / 2 ^ 51"
proof (cases "p = 0")
  case True
  then show ?thesis using t
    by (simp add: int_truediv_def float_mul_def round_double_0)
next
  case False
  with p have p1: "1 \<le> p" by simp
  define x where "x = real_of_int p / real_of_int t"
  have tr: "0 < real_of_int t" using t by simp
  have "real_of_int t < of_int (2 ^ 1022)" using t(2) by (simp only: of_int_less_iff)
  then have tr2: "real_of_int t < 2 ^ 1022" by simp
  have "1 / 2 ^ 1022 < 1 / real_of_int t"
    using tr tr2 by (simp add: field_simps del: power_numeral)
  also have "\<dots> \<le> x"
    unfolding x_def using p1 tr by (simp add: divide_right_mono)
  finally have xlo: "1 / 2 ^ 1022 \<le> x" by simp
  have xpos: "0 < x" unfolding x_def using p1 tr by simp
  have x1: "x \<le> 1" unfolding x_def using p tr by simp
  have "(1::real) < 2 ^ 1023" by (rule one_less_power) simp_all
  with x1 have xhi: "x < 2 ^ 1023" by linarith
  from round_double_normal [OF xlo xhi] obtain q where
    q: "round_double x = Some q" and qx: "\<bar>q - x\<bar> \<le> x / 2 ^ 53"
    by blast
  have small: "x / 2 ^ 53 \<le> x / 2" using xpos by (simp add: field_simps)
  from qx small have qlo: "x / 2 \<le> q" and qhi: "q \<le> 2 * x" using xpos by linarith+
  have ylo: "1 / 2 ^ 1022 \<le> q * 100" using qlo xlo xpos by linarith
  have "(2::real) ^ 8 \<le> 2 ^ 1023" by (rule power_increasing) simp_all
  then have "(256::real) \<le> 2 ^ 1023" by simp
  with qhi x1 have yhi: "q * 100 < 2 ^ 1023" by linarith
  from round_double_normal [OF ylo yhi] obtain rate where
    r: "round_double (q * 100) = Some rate" and ry: "\<bar>rate - q * 100\<bar> \<le> q * 100 / 2 ^ 53"
    by blast
  have "rate - 100 * x = (rate - q * 100) + 100 * (q - x)" by simp
  then have "\<bar>rate - 100 * x\<bar> \<le> \<bar>rate - q * 100\<bar> + \<bar>100 * (q - x)\<bar>"
    by (simp only: abs_triangle_ineq)
  also have "\<dots> = \<bar>rate - q * 100\<bar> + 100 * \<bar>q - x\<bar>"
    by (simp only: abs_mult abs_numeral)
  also have "\<dots> \<le> q * 100 / 2 ^ 53 + 100 * (x / 2 ^ 53)"
  proof (rule add_mono)
    show "\<bar>rate - q * 100\<bar> \<le> q * 100 / 2 ^ 53" by (rule ry)
    show "100 * \<bar>q - x\<bar> \<le> 100 * (x / 2 ^ 53)"
      using qx by (intro mult_left_mono) simp_all
  qed
  also have "\<dots> \<le> (2 * x) * 100 / 2 ^ 53 + 100 * (x / 2 ^ 53)"
    using qhi by (simp add: divide_right_mono)
  also have "\<dots> \<le> 100 * x / 2 ^ 51" using xpos by (simp add: field_simps)
  finally have bound: "\<bar>rate - 100 * x\<bar> \<le> 100 * x / 2 ^ 51" .
  have "int_truediv p t = Inr q"
    using t q by (simp add: int_truediv_def x_def)
  moreover have "float_mul q 100 = PyFloat rate"
    using r by (simp add: float_mul_def)
  ultimately show ?thesis using bound
    by (simp add: x_def)
qed

lemma success_rate_full:
  assumes "0 < t"
  shows "int_truediv t t = Inr 1 \<and> float_mul 1 100 = PyFloat 100"
  using assms by (simp add: int_truediv_def float_mul_def round_double_1 round_double_100)

section \<open>The claims\<close>

subsection \<open>C1: profiles that are not structurally valid\<close>

text \<open>
  Claim C1 says that a profile whose measurement arrays differ in length, or are not
  depth-ordered, makes \<^verbatim>\<open>clean_profile_data\<close> fail with \<^verbatim>\<open>MalformedProfile\<close>
  with no statistics update and no report. The method has no structural check:
  on the fresh controller, \<open>profile_mismatched\<close> (two temperatures, one salinity,
  decreasing pressures) is returned with a report named \<^verbatim>\<open>1901234_7\<close>, and
  \<^verbatim>\<open>total_profiles\<close> goes from 0 to 1.
\<close>

theorem no_structural_check_counterexample:
  "\<not> structurally_valid profile_mismatched \<and>
   \<not> isl (snd (clean_profile_data builtins_default (init None) profile_mismatched)) \<and>
   cleaned_of (clean_profile_data builtins_default (init None) profile_mismatched)
     = Some profile_mismatched \<and>
   map_option profile_id (report_of (clean_profile_data builtins_default (init None) profile_mismatched))
     = Some ''1901234_7'' \<and>
   stats (init None) ''total_profiles'' = Some 0 \<and>
   stats (fst (clean_profile_data builtins_default (init None) profile_mismatched)) ''total_profiles''
     = Some 1"
proof -
  have "\<not> structurally_valid profile_mismatched"
    by (simp add: structurally_valid_def equal_length_arrays_def measurements_def
        profile_mismatched_def)
  then show ?thesis
    by (simp add: clean_profile_data_returns [OF init_stats profile_mismatched_id]
        cleaned_of_def report_of_def stats_after_total init_stats)
qed

text \<open>
  C1 as amended: for every profile that is not structurally valid and whose
  identifier can be built (\<^verbatim>\<open>str()\<close> raises neither on the platform number nor
  on the cycle number), on a controller with any configuration and any history
  of earlier calls, \<^verbatim>\<open>clean_profile_data\<close> makes no structural check: it
  returns the input together with a report and counts the profile, adding one to
  \<^verbatim>\<open>total_profiles\<close> and one to \<^verbatim>\<open>profiles_processed\<close>.
\<close>

theorem malformed_profile_processed:
  assumes "\<not> structurally_valid data"
    and "profile_id_of py data = Inr pid"
  shows "\<exists>self' report t p.
     clean_profile_data py (after_calls py (init cfg) ds) data = (self', Inr (data, report)) \<and>
     profile_id report = pid \<and>
     stats (after_calls py (init cfg) ds) ''total_profiles'' = Some t \<and>
     stats self' ''total_profiles'' = Some (t + 1) \<and>
     stats (after_calls py (init cfg) ds) ''profiles_processed'' = Some p \<and>
     stats self' ''profiles_processed'' = Some (p + 1)"
  by (simp add: clean_profile_data_returns [OF reachable_stats assms(2)] reachable_stats
      stats_after_total stats_after_processed)

theorem malformed_profile_processed_witness:
  "\<not> structurally_valid profile_mismatched \<and>
   profile_id_of builtins_default profile_mismatched = Inr ''1901234_7'' \<and>
   (\<exists>self' report t p.
     clean_profile_data builtins_default (after_calls builtins_default (init None) [profile_short])
         profile_mismatched
       = (self', Inr (profile_mismatched, report)) \<and>
     profile_id report = ''1901234_7'' \<and>
     stats (after_calls builtins_default (init None) [profile_short]) ''total_profiles'' = Some t \<and>
     stats self' ''total_profiles'' = Some (t + 1) \<and>
     stats (after_calls builtins_default (init None) [profile_short]) ''profiles_processed'' = Some p \<and>
     stats self' ''profiles_processed'' = Some (p + 1))"
proof -
  have bad: "\<not> structurally_valid profile_mismatched"
    by (simp add: structurally_valid_def equal_length_arrays_def measurements_def
        profile_mismatched_def)
  from bad profile_mismatched_id
    malformed_profile_processed [OF bad profile_mismatched_id, of None "[profile_short]"]
  show ?thesis
    by (intro conjI)
qed

subsection \<open>C2: profiles below the acceptance limits\<close>

text \<open>
  Claim C2 says that a structurally valid profile with fewer present measurements
  than \<^verbatim>\<open>min_profile_length\<close>, or with a \<^verbatim>\<open>good_data_percentage\<close> below
  \<^verbatim>\<open>min_good_data_percentage\<close>, is marked rejected and classified unusable. The
  method never reads the thresholds: \<open>profile_short\<close> has three present
  measurements, the default \<^verbatim>\<open>min_profile_length\<close> is 5, and the report says
  \<^verbatim>\<open>DataQuality.GOOD\<close> with no issue, \<^verbatim>\<open>profiles_rejected\<close> stays 0 and
  \<^verbatim>\<open>profiles_processed\<close> becomes 1.
\<close>

theorem short_profile_counterexample:
  "structurally_valid profile_short \<and>
   too_short (init None) profile_short \<and>
   map_option data_quality (report_of (clean_profile_data builtins_default (init None) profile_short))
     = Some GOOD \<and>
   map_option issues (report_of (clean_profile_data builtins_default (init None) profile_short))
     = Some [] \<and>
   stats (fst (clean_profile_data builtins_default (init None) profile_short)) ''profiles_rejected''
     = Some 0 \<and>
   stats (fst (clean_profile_data builtins_default (init None) profile_short)) ''profiles_processed''
     = Some 1"
proof -
  have "structurally_valid profile_short"
    by (simp add: structurally_valid_def equal_length_arrays_def depth_ordered_def
        measurements_def profile_short_def)
  moreover have "min_profile_length (init None) = Some 5"
    by (simp add: min_profile_length_def init_def dict_get_def get_default_thresholds_def)
  moreover have "present_measurements profile_short = 3"
    by (simp add: present_measurements_def tracked_variables_def measurements_def profile_short_def)
  ultimately show ?thesis
    by (simp add: clean_profile_data_returns [OF init_stats profile_short_id] report_of_def
        too_short_def stats_after_rejected stats_after_processed)
qed

text \<open>
  C2 as amended: for every structurally valid profile whose count of present
  measurements is below \<^verbatim>\<open>min_profile_length\<close>, or whose
  \<^verbatim>\<open>good_data_percentage\<close> is below \<^verbatim>\<open>min_good_data_percentage\<close>, and whose
  identifier can be built, \<^verbatim>\<open>clean_profile_data\<close> returns a full report rather
  than failing, but the profile is not marked rejected and its classification is
  not forced: \<^verbatim>\<open>data_quality\<close> is good, no issue is appended,
  \<^verbatim>\<open>profiles_rejected\<close> stays 0 and the profile is counted in
  \<^verbatim>\<open>profiles_processed\<close>. The witness takes the short profile under the default
  thresholds, and the same profile under \<open>config_strict\<close>, where the reported 85
  percent is below the 90 asked for.
\<close>

theorem low_quality_not_rejected:
  assumes "structurally_valid data"
    and "profile_id_of py data = Inr pid"
    and "too_short (after_calls py (init cfg) ds) data \<or>
         (\<exists>report. report_of (clean_profile_data py (after_calls py (init cfg) ds) data) = Some report \<and>
                   too_poor (after_calls py (init cfg) ds) report)"
  shows "\<exists>self' report p.
     clean_profile_data py (after_calls py (init cfg) ds) data = (self', Inr (data, report)) \<and>
     data_quality report = GOOD \<and>
     issues report = [] \<and>
     stats (after_calls py (init cfg) ds) ''profiles_rejected'' = Some 0 \<and>
     stats self' ''profiles_rejected'' = Some 0 \<and>
     stats (after_calls py (init cfg) ds) ''profiles_processed'' = Some p \<and>
     stats self' ''profiles_processed'' = Some (p + 1)"
  by (simp add: clean_profile_data_returns [OF reachable_stats assms(2)] reachable_stats
      stats_after_rejected stats_after_processed)

theorem low_quality_not_rejected_witness:
  "structurally_valid profile_short \<and>
   profile_id_of builtins_default profile_short = Inr ''1901234_8'' \<and>
   too_short (after_calls builtins_default (init None) []) profile_short \<and>
   (\<exists>report. report_of (clean_profile_data builtins_default
                          (after_calls builtins_default (init (Some config_strict)) [])
                          profile_short) = Some report \<and>
             too_poor (after_calls builtins_default (init (Some config_strict)) []) report) \<and>
   (\<exists>self' report p.
     clean_profile_data builtins_default (after_calls builtins_default (init None) []) profile_short
       = (self', Inr (profile_short, report)) \<and>
     data_quality report = GOOD \<and>
     issues report = [] \<and>
     stats (after_calls builtins_default (init None) []) ''profiles_rejected'' = Some 0 \<and>
     stats self' ''profiles_rejected'' = Some 0 \<and>
     stats (after_calls builtins_default (init None) []) ''profiles_processed'' = Some p \<and>
     stats self' ''profiles_processed'' = Some (p + 1)) \<and>
   (\<exists>self' report p.
     clean_profile_data builtins_default (after_calls builtins_default (init (Some config_strict)) [])
         profile_short
       = (self', Inr (profile_short, report)) \<and>
     data_quality report = GOOD \<and>
     issues report = [] \<and>
     stats (after_calls builtins_default (init (Some config_strict)) []) ''profiles_rejected'' = Some 0 \<and>
     stats self' ''profiles_rejected'' = Some 0 \<and>
     stats (after_calls builtins_default (init (Some config_strict)) []) ''profiles_processed'' = Some p \<and>
     stats self' ''profiles_processed'' = Some (p + 1))"
proof -
  have valid: "structurally_valid profile_short"
    by (simp add: structurally_valid_def equal_length_arrays_def depth_ordered_def
        measurements_def profile_short_def)
  have minlen: "min_profile_length (init None) = Some 5"
    by (simp add: min_profile_length_def init_def dict_get_def get_default_thresholds_def)
  have few: "present_measurements profile_short = 3"
    by (simp add: present_measurements_def tracked_variables_def measurements_def profile_short_def)
  have short: "too_short (after_calls builtins_default (init None) []) profile_short"
    by (simp add: too_short_def minlen few)
  have mingood: "min_good_data_percentage (init (Some config_strict)) = Some 90"
    by (simp add: min_good_data_percentage_def init_def dict_get_def config_strict_def)
  have poor: "\<exists>report. report_of (clean_profile_data builtins_default
                  (after_calls builtins_default (init (Some config_strict)) []) profile_short)
                = Some report \<and>
             too_poor (after_calls builtins_default (init (Some config_strict)) []) report"
    by (simp add: clean_profile_data_returns [OF init_stats profile_short_id] report_of_def
        too_poor_def mingood)
  have one: "too_short (after_calls builtins_default (init None) []) profile_short \<or>
         (\<exists>report. report_of (clean_profile_data builtins_default
                                (after_calls builtins_default (init None) [])
                                profile_short) = Some report \<and>
                   too_poor (after_calls builtins_default (init None) []) report)"
    using short by (rule disjI1)
  have two: "too_short (after_calls builtins_default (init (Some config_strict)) []) profile_short \<or>
         (\<exists>report. report_of (clean_profile_data builtins_default
                      (after_calls builtins_default (init (Some config_strict)) []) profile_short)
                    = Some report \<and>
                   too_poor (after_calls builtins_default (init (Some config_strict)) []) report)"
    using poor by (rule disjI2)
  from valid profile_short_id short poor
    low_quality_not_rejected [OF valid profile_short_id one]
    low_quality_not_rejected [OF valid profile_short_id two]
  show ?thesis
    by (intro conjI)
qed

subsection \<open>C3: profiles with every value missing\<close>

text \<open>
  Claim C3 says that a profile in which all measurement values are missing gets a
  report with \<^verbatim>\<open>total_measurements\<close> 0, \<^verbatim>\<open>good_data_percentage\<close> 0 and
  classification unusable. For \<open>profile_all_missing\<close> the report holds the
  placeholders 100, 85.0 and \<^verbatim>\<open>DataQuality.GOOD\<close>.
\<close>

theorem all_missing_counterexample:
  "all_missing profile_all_missing \<and>
   map_option total_measurements
      (report_of (clean_profile_data builtins_default (init None) profile_all_missing)) = Some 100 \<and>
   map_option good_data_percentage
      (report_of (clean_profile_data builtins_default (init None) profile_all_missing)) = Some 85 \<and>
   map_option data_quality
      (report_of (clean_profile_data builtins_default (init None) profile_all_missing)) = Some GOOD"
proof -
  have "all_missing profile_all_missing"
    by (simp add: all_missing_def present_measurements_def tracked_variables_def
        measurements_def profile_all_missing_def)
  then show ?thesis
    by (simp add: clean_profile_data_returns [OF init_stats profile_all_missing_id] report_of_def)
qed

text \<open>
  C3 as amended: for every profile in which all measurement values are missing
  and whose identifier can be built, \<^verbatim>\<open>clean_profile_data\<close> returns a report
  whose \<^verbatim>\<open>total_measurements\<close> is 100, whose \<^verbatim>\<open>good_data_percentage\<close> is 85.0
  and whose classification is good; no detector runs, so none crashes.
\<close>

theorem all_missing_placeholder_report:
  assumes "all_missing data"
    and "profile_id_of py data = Inr pid"
  shows "\<exists>self' report.
     clean_profile_data py (after_calls py (init cfg) ds) data = (self', Inr (data, report)) \<and>
     total_measurements report = 100 \<and>
     good_data_percentage report = 85 \<and>
     data_quality report = GOOD"
  by (simp add: clean_profile_data_returns [OF reachable_stats assms(2)])

theorem all_missing_placeholder_report_witness:
  "all_missing profile_all_missing \<and>
   profile_id_of builtins_default profile_all_missing = Inr ''1901234_9'' \<and>
   (\<exists>self' report.
     clean_profile_data builtins_default (after_calls builtins_default (init None) []) profile_all_missing
       = (self', Inr (profile_all_missing, report)) \<and>
     total_measurements report = 100 \<and>
     good_data_percentage report = 85 \<and>
     data_quality report = GOOD)"
proof -
  have missing: "all_missing profile_all_missing"
    by (simp add: all_missing_def present_measurements_def tracked_variables_def
        measurements_def profile_all_missing_def)
  from missing profile_all_missing_id
    all_missing_placeholder_report [OF missing profile_all_missing_id, of None "[]"]
  show ?thesis
    by (intro conjI)
qed

subsection \<open>C4: the flag counts of a report\<close>

text \<open>
  Claim C4 says that the counts of \<^verbatim>\<open>flags_summary\<close> sum to
  \<^verbatim>\<open>total_measurements\<close>. For \<open>profile_short\<close> the counts sum to 0 and
  \<^verbatim>\<open>total_measurements\<close> is 100.
\<close>

theorem flags_summary_counterexample:
  "map_option (\<lambda>r. flags_total (flags_summary r))
      (report_of (clean_profile_data builtins_default (init None) profile_short)) = Some 0 \<and>
   map_option total_measurements
      (report_of (clean_profile_data builtins_default (init None) profile_short)) = Some 100"
  by (simp add: clean_profile_data_returns [OF init_stats profile_short_id] report_of_def
      flags_total_def)

text \<open>
  C4 as amended: for every profile processed by \<^verbatim>\<open>clean_profile_data\<close>, that is
  whenever a call returns a report, on any controller, the report has an empty
  \<^verbatim>\<open>flags_summary\<close>, whose counts sum to 0, and a \<^verbatim>\<open>total_measurements\<close> of
  100; no point contributes a flag.
\<close>

theorem flags_summary_empty:
  assumes "clean_profile_data py self data = (self', Inr (cleaned, report))"
  shows "flags_summary report = Map.empty \<and>
     flags_total (flags_summary report) = 0 \<and>
     total_measurements report = 100"
  using clean_profile_data_returned [OF assms]
  by (auto simp add: flags_total_def)

theorem flags_summary_empty_witness:
  "\<exists>self' cleaned report.
     clean_profile_data builtins_default (init None) profile_short = (self', Inr (cleaned, report)) \<and>
     flags_summary report = Map.empty \<and>
     flags_total (flags_summary report) = 0 \<and>
     total_measurements report = 100"
proof -
  obtain self' cleaned report where
    call: "clean_profile_data builtins_default (init None) profile_short = (self', Inr (cleaned, report))"
    using clean_profile_data_returns [OF init_stats profile_short_id] by blast
  from call flags_summary_empty [OF call] show ?thesis
    by blast
qed

subsection \<open>C5: the counters of a call\<close>




subsection \<open>C6: the statistics snapshot\<close>

text \<open>
  Claim C6 says that \<^verbatim>\<open>success_rate_percent\<close> equals
  \<open>100 * profiles_processed / total_profiles\<close>. The method computes
  \<^verbatim>\<open>(processed / total) * 100\<close> in double precision, rounding the quotient and
  then the product. After three calls of which one returned (the two others
  raise on \<open>profile_huge_cycle\<close>) the counters are 3 and 1, and the rate is the
  double \<open>2345624805922133 / 2 ^ 46\<close>, printed \<^verbatim>\<open>33.33333333333333\<close>, which is
  not \<open>100 / 3\<close>.
\<close>

theorem success_rate_rounding_counterexample:
  "stats (after_calls builtins_default (init None)
            [profile_huge_cycle, profile_short, profile_huge_cycle]) ''total_profiles'' = Some 3 \<and>
   stats (after_calls builtins_default (init None)
            [profile_huge_cycle, profile_short, profile_huge_cycle]) ''profiles_processed'' = Some 1 \<and>
   rate_of (get_statistics (after_calls builtins_default (init None)
            [profile_huge_cycle, profile_short, profile_huge_cycle]))
     = Some (PyFloat (2345624805922133 / 70368744177664)) \<and>
   (2345624805922133 / 70368744177664 :: real) \<noteq> 100 * 1 / 3"
proof -
  let ?st = "after_calls builtins_default (init None)
      [profile_huge_cycle, profile_short, profile_huge_cycle]"
  have st: "stats ?st = stats_after 3 1"
    by (simp add: reachable_stats profile_short_prints profile_huge_cycle_raises
        del: after_calls.simps)
  have quotient: "int_truediv 1 3 = Inr (6004799503160661 / 18014398509481984)"
    by (simp add: int_truediv_def round_double_third)
  have product: "float_mul (6004799503160661 / 18014398509481984) 100
      = PyFloat (2345624805922133 / 70368744177664)"
    unfolding float_mul_def round_double_third_percent by simp
  have rate: "rate_of (get_statistics ?st) = Some (PyFloat (2345624805922133 / 70368744177664))"
    unfolding get_statistics_def st stats_after_total stats_after_processed
    by (simp add: quotient product rate_of_def)
  have differ: "(2345624805922133 / 70368744177664 :: real) \<noteq> 100 * 1 / 3"
    by simp
  from st rate differ show ?thesis
    by (simp add: stats_after_total stats_after_processed del: after_calls.simps)
qed

text \<open>
  C6 as amended: on a controller whose counters satisfy
  \<open>0 \<le> profiles_processed \<le> total_profiles < 2 ^ 1022\<close>, as they do on a
  controller in use, \<^verbatim>\<open>get_statistics\<close> returns a dictionary with every counter
  at its value and with \<^verbatim>\<open>success_rate_percent\<close>, a float that is 0 when
  \<^verbatim>\<open>total_profiles\<close> is 0, is 100 when the two counters are equal and not 0,
  and otherwise equals \<open>100 * profiles_processed / total_profiles\<close> up to the two
  roundings of double precision, which change it by at most the fraction
  \<open>1 / 2 ^ 51\<close> of its value. The witness takes the fresh controller, the
  controller of the counterexample and a controller after two calls that
  returned.
\<close>

theorem get_statistics_rounded:
  assumes "stats self ''total_profiles'' = Some t"
    and "stats self ''profiles_processed'' = Some p"
    and "0 \<le> p" and "p \<le> t" and "t < 2 ^ 1022"
  shows "\<exists>snapshot rate.
     get_statistics self = Inr snapshot \<and>
     snapshot ''success_rate_percent'' = Some (PyFloat rate) \<and>
     (\<forall>key. key \<noteq> ''success_rate_percent'' \<longrightarrow> snapshot key = map_option PyInt (stats self key)) \<and>
     (t = 0 \<longrightarrow> rate = 0) \<and>
     (0 < t \<and> p = t \<longrightarrow> rate = 100) \<and>
     (0 < t \<longrightarrow>
        \<bar>rate - 100 * real_of_int p / real_of_int t\<bar> \<le> (100 * real_of_int p / real_of_int t) / 2 ^ 51)"
proof (cases "t = 0")
  case True
  with assms show ?thesis
    by (simp add: get_statistics_def)
next
  case False
  with assms have pos: "0 < t" by simp
  from success_rate_rounded [OF assms(3) assms(4) pos assms(5)] obtain q rate where
    q: "int_truediv p t = Inr q" and rate: "float_mul q 100 = PyFloat rate" and
    near: "\<bar>rate - 100 * real_of_int p / real_of_int t\<bar> \<le> (100 * real_of_int p / real_of_int t) / 2 ^ 51"
    by blast
  have full: "p = t \<longrightarrow> rate = 100"
  proof
    assume "p = t"
    with q rate success_rate_full [OF pos] show "rate = 100" by simp
  qed
  have "get_statistics self =
      Inr ((\<lambda>k. map_option PyInt (stats self k))(''success_rate_percent'' \<mapsto> PyFloat rate))"
    using assms(1) assms(2) pos q rate by (simp add: get_statistics_def)
  with pos near full show ?thesis
    by simp
qed

theorem get_statistics_rounded_witness:
  "(\<exists>snapshot.
      stats (init None) ''total_profiles'' = Some 0 \<and>
      stats (init None) ''profiles_processed'' = Some 0 \<and>
      get_statistics (init None) = Inr snapshot \<and>
      snapshot ''success_rate_percent'' = Some (PyFloat 0) \<and>
      snapshot ''total_profiles'' = Some (PyInt 0)) \<and>
   (\<exists>snapshot.
      stats (after_calls builtins_default (init None) [profile_short, profile_short]) ''total_profiles''
        = Some 2 \<and>
      stats (after_calls builtins_default (init None) [profile_short, profile_short]) ''profiles_processed''
        = Some 2 \<and>
      get_statistics (after_calls builtins_default (init None) [profile_short, profile_short])
        = Inr snapshot \<and>
      snapshot ''success_rate_percent'' = Some (PyFloat 100) \<and>
      snapshot ''total_profiles'' = Some (PyInt 2)) \<and>
   (\<exists>snapshot rate.
      stats (after_calls builtins_default (init None)
               [profile_huge_cycle, profile_short, profile_huge_cycle]) ''total_profiles'' = Some 3 \<and>
      stats (after_calls builtins_default (init None)
               [profile_huge_cycle, profile_short, profile_huge_cycle]) ''profiles_processed'' = Some 1 \<and>
      get_statistics (after_calls builtins_default (init None)
               [profile_huge_cycle, profile_short, profile_huge_cycle]) = Inr snapshot \<and>
      snapshot ''success_rate_percent'' = Some (PyFloat rate) \<and>
      snapshot ''total_profiles'' = Some (PyInt 3) \<and>
      \<bar>rate - 100 / 3\<bar> \<le> (100 / 3) / 2 ^ 51)"
proof -
  let ?st2 = "after_calls builtins_default (init None) [profile_short, profile_short]"
  let ?st3 = "after_calls builtins_default (init None)
      [profile_huge_cycle, profile_short, profile_huge_cycle]"
  have t0: "stats (init None) ''total_profiles'' = Some 0"
    and p0: "stats (init None) ''profiles_processed'' = Some 0"
    by (simp_all add: init_stats stats_after_total stats_after_processed)
  have t2: "stats ?st2 ''total_profiles'' = Some 2"
    and p2: "stats ?st2 ''profiles_processed'' = Some 2"
    by (simp_all add: reachable_stats profile_short_prints stats_after_total stats_after_processed
        del: after_calls.simps)
  have t3: "stats ?st3 ''total_profiles'' = Some 3"
    and p3: "stats ?st3 ''profiles_processed'' = Some 1"
    by (simp_all add: reachable_stats profile_short_prints profile_huge_cycle_raises
        stats_after_total stats_after_processed del: after_calls.simps)
  have first: "\<exists>snapshot.
      stats (init None) ''total_profiles'' = Some 0 \<and>
      stats (init None) ''profiles_processed'' = Some 0 \<and>
      get_statistics (init None) = Inr snapshot \<and>
      snapshot ''success_rate_percent'' = Some (PyFloat 0) \<and>
      snapshot ''total_profiles'' = Some (PyInt 0)"
    using t0 p0 get_statistics_rounded [OF t0 p0] by auto
  have second: "\<exists>snapshot.
      stats ?st2 ''total_profiles'' = Some 2 \<and>
      stats ?st2 ''profiles_processed'' = Some 2 \<and>
      get_statistics ?st2 = Inr snapshot \<and>
      snapshot ''success_rate_percent'' = Some (PyFloat 100) \<and>
      snapshot ''total_profiles'' = Some (PyInt 2)"
    using t2 p2 get_statistics_rounded [OF t2 p2] by (auto simp del: after_calls.simps)
  have third: "\<exists>snapshot rate.
      stats ?st3 ''total_profiles'' = Some 3 \<and>
      stats ?st3 ''profiles_processed'' = Some 1 \<and>
      get_statistics ?st3 = Inr snapshot \<and>
      snapshot ''success_rate_percent'' = Some (PyFloat rate) \<and>
      snapshot ''total_profiles'' = Some (PyInt 3) \<and>
      \<bar>rate - 100 / 3\<bar> \<le> (100 / 3) / 2 ^ 51"
    using t3 p3 get_statistics_rounded [OF t3 p3] by (auto simp del: after_calls.simps)
  from first second third show ?thesis
    by (intro conjI)
qed

subsection \<open>C7: cleaning keeps the length of every array\<close>

text \<open>
  Claim C7: for every profile and every key that holds an array (so for every
  tracked variable), the cleaned profile that a call of \<^verbatim>\<open>clean_profile_data\<close>
  returns, on any controller, holds an array of the same length under that key,
  and each of its elements is the raw element at that position or the missing
  value.
\<close>

theorem cleaned_arrays_keep_length:
  assumes "clean_profile_data py self data = (self', Inr (cleaned, report))"
  shows "\<forall>var xs. data var = Some (PyList xs) \<longrightarrow>
        (\<exists>ys. cleaned var = Some (PyList ys) \<and> length ys = length xs \<and>
              (\<forall>i < length xs. ys ! i = xs ! i \<or> ys ! i = PyNone))"
proof -
  from clean_profile_data_returned [OF assms] have "cleaned = data"
    by blast
  then show ?thesis
    by simp
qed

theorem cleaned_arrays_keep_length_witness:
  "profile_mismatched ''TEMP'' = Some (PyList [PyFloat 10, PyFloat 11]) \<and>
   (\<exists>self' cleaned report ys.
      clean_profile_data builtins_default (init None) profile_mismatched
        = (self', Inr (cleaned, report)) \<and>
      cleaned ''TEMP'' = Some (PyList ys) \<and> length ys = 2)"
proof -
  have arr: "profile_mismatched ''TEMP'' = Some (PyList [PyFloat 10, PyFloat 11])"
    by (simp add: profile_mismatched_def)
  obtain self' cleaned report where
    call: "clean_profile_data builtins_default (init None) profile_mismatched
            = (self', Inr (cleaned, report))"
    using clean_profile_data_returns [OF init_stats profile_mismatched_id] by blast
  from cleaned_arrays_keep_length [OF call, rule_format, OF arr] obtain ys where
    ys: "cleaned ''TEMP'' = Some (PyList ys)" and len: "length ys = length [PyFloat 10, PyFloat 11]"
    by (elim exE conjE)
  from len have len2: "length ys = 2"
    by simp
  from arr call ys len2 show ?thesis
    by blast
qed

subsection \<open>C8: a second run gives the same result\<close>

text \<open>
  Claim C8: running \<^verbatim>\<open>clean_profile_data\<close> a second time on the same raw
  profile has the outcome of the first run: when the first run returns a cleaned
  profile and a report, the second returns the same cleaned profile and the same
  report (and when \<^verbatim>\<open>str()\<close> raises in the first, it raises the same exception
  in the second). A run leaves the configuration and the thresholds of the
  controller as they were; only the statistics differ, \<^verbatim>\<open>total_profiles\<close>
  being one higher after each run.
\<close>

theorem second_run_same_result:
  "snd (clean_profile_data py (fst (clean_profile_data py (after_calls py (init cfg) ds) data)) data)
     = snd (clean_profile_data py (after_calls py (init cfg) ds) data) \<and>
   config (fst (clean_profile_data py (after_calls py (init cfg) ds) data))
     = config (after_calls py (init cfg) ds) \<and>
   thresholds (fst (clean_profile_data py (after_calls py (init cfg) ds) data))
     = thresholds (after_calls py (init cfg) ds) \<and>
   stats (after_calls py (init cfg) ds) ''total_profiles'' = Some (int (length ds)) \<and>
   stats (fst (clean_profile_data py (after_calls py (init cfg) ds) data)) ''total_profiles''
     = Some (int (length ds) + 1) \<and>
   stats (fst (clean_profile_data py (fst (clean_profile_data py (after_calls py (init cfg) ds) data)) data))
      ''total_profiles'' = Some (int (length ds) + 2)"
proof -
  let ?st = "after_calls py (init cfg) ds"
  let ?p = "int (length (filter (identifiers_print py) ds))"
  let ?p1 = "?p + (if identifiers_print py data then 1 else 0)"
  let ?st1 = "?st\<lparr>stats := stats_after (int (length ds) + 1) ?p1\<rparr>"
  have st1: "stats ?st1 = stats_after (int (length ds) + 1) ?p1"
    by simp
  have first: "fst (clean_profile_data py ?st data) = ?st1"
    by (rule clean_profile_data_state [OF reachable_stats])
  have same: "snd (clean_profile_data py ?st1 data) = snd (clean_profile_data py ?st data)"
    by (simp add: clean_profile_data_counted [OF st1] clean_profile_data_counted [OF reachable_stats]
        split: sum.splits)
  have kept: "config ?st1 = config ?st \<and> thresholds ?st1 = thresholds ?st"
    by simp
  have total0: "stats ?st ''total_profiles'' = Some (int (length ds))"
    by (simp add: reachable_stats stats_after_total)
  have total1: "stats ?st1 ''total_profiles'' = Some (int (length ds) + 1)"
    by (simp add: stats_after_total)
  have total2: "stats (fst (clean_profile_data py ?st1 data)) ''total_profiles''
      = Some (int (length ds) + 2)"
    by (simp add: clean_profile_data_state [OF st1] stats_after_total)
  show ?thesis
    unfolding first using same kept total0 total1 total2 by simp
qed

subsection \<open>C9: thresholds from the configuration\<close>

text \<open>
  Claim C9 says that every limit or scalar missing from the configuration falls
  back to its default, key by key. \<^verbatim>\<open>__init__\<close> takes the whole
  \<^verbatim>\<open>thresholds\<close> entry or the whole default table: with \<open>config_partial\<close>,
  whose thresholds give \<^verbatim>\<open>max_depth_gap\<close> only, the controller's thresholds have
  no \<^verbatim>\<open>min_profile_length\<close> (default 5) and no \<^verbatim>\<open>TEMP\<close> limits.
\<close>

theorem partial_thresholds_counterexample:
  "config_partial ''thresholds'' = Some (PyDict [(''max_depth_gap'', PyFloat 15)]) \<and>
   pyval_get (PyDict [(''max_depth_gap'', PyFloat 15)]) ''min_profile_length'' = None \<and>
   pyval_get get_default_thresholds ''min_profile_length'' = Some (PyInt 5) \<and>
   pyval_get (thresholds (init (Some config_partial))) ''min_profile_length'' = None \<and>
   pyval_get (thresholds (init (Some config_partial))) ''TEMP'' = None"
  by (simp add: config_partial_def init_def dict_get_def get_default_thresholds_def)

text \<open>
  C9 as amended: when no configuration is given, or the configuration has no
  \<^verbatim>\<open>thresholds\<close> entry, the thresholds are the default table, every variable
  limit and scalar setting at its documented default; when the configuration has
  a \<^verbatim>\<open>thresholds\<close> entry, that entry is used as it is, and a key it lacks is
  absent from the thresholds.
\<close>

theorem thresholds_taken_whole:
  "thresholds (init None) = get_default_thresholds \<and>
   thresholds (init (Some c)) = (case c ''thresholds'' of None \<Rightarrow> get_default_thresholds | Some t \<Rightarrow> t) \<and>
   pyval_get (thresholds (init (Some c))) key =
     (case c ''thresholds'' of None \<Rightarrow> pyval_get get_default_thresholds key | Some t \<Rightarrow> pyval_get t key) \<and>
   pyval_get get_default_thresholds ''TEMP'' =
     Some (PyDict [(''min'', PyFloat (- 2.5)), (''max'', PyFloat 40),
                   (''spike_threshold'', PyFloat 5), (''gradient_threshold'', PyFloat 2)]) \<and>
   pyval_get get_default_thresholds ''PSAL'' =
     Some (PyDict [(''min'', PyFloat 2), (''max'', PyFloat 42),
                   (''spike_threshold'', PyFloat 2), (''gradient_threshold'', PyFloat 1)]) \<and>
   pyval_get get_default_thresholds ''PRES'' =
     Some (PyDict [(''min'', PyFloat 0), (''max'', PyFloat 11000),
                   (''spike_threshold'', PyFloat 100), (''gradient_threshold'', PyFloat 50)]) \<and>
   pyval_get get_default_thresholds ''density_inversion_threshold'' = Some (PyFloat 0.05) \<and>
   pyval_get get_default_thresholds ''min_good_data_percentage'' = Some (PyFloat 70) \<and>
   pyval_get get_default_thresholds ''max_depth_gap'' = Some (PyFloat 500) \<and>
   pyval_get get_default_thresholds ''min_profile_length'' = Some (PyInt 5)"
proof -
  have none: "thresholds (init None) = get_default_thresholds"
    by (simp add: init_def dict_get_def)
  have some: "thresholds (init (Some c)) =
      (case c ''thresholds'' of None \<Rightarrow> get_default_thresholds | Some t \<Rightarrow> t)"
    by (simp add: init_def dict_get_def)
  have key: "pyval_get (thresholds (init (Some c))) key =
     (case c ''thresholds'' of None \<Rightarrow> pyval_get get_default_thresholds key | Some t \<Rightarrow> pyval_get t key)"
    by (simp add: some split: option.splits)
  have defaults: "pyval_get get_default_thresholds ''TEMP'' =
     Some (PyDict [(''min'', PyFloat (- 2.5)), (''max'', PyFloat 40),
                   (''spike_threshold'', PyFloat 5), (''gradient_threshold'', PyFloat 2)]) \<and>
   pyval_get get_default_thresholds ''PSAL'' =
     Some (PyDict [(''min'', PyFloat 2), (''max'', PyFloat 42),
                   (''spike_threshold'', PyFloat 2), (''gradient_threshold'', PyFloat 1)]) \<and>
   pyval_get get_default_thresholds ''PRES'' =
     Some (PyDict [(''min'', PyFloat 0), (''max'', PyFloat 11000),
                   (''spike_threshold'', PyFloat 100), (''gradient_threshold'', PyFloat 50)]) \<and>
   pyval_get get_default_thresholds ''density_inversion_threshold'' = Some (PyFloat 0.05) \<and>
   pyval_get get_default_thresholds ''min_good_data_percentage'' = Some (PyFloat 70) \<and>
   pyval_get get_default_thresholds ''max_depth_gap'' = Some (PyFloat 500) \<and>
   pyval_get get_default_thresholds ''min_profile_length'' = Some (PyInt 5)"
    by (simp add: get_default_thresholds_def)
  from none some key defaults show ?thesis by blast
qed

subsection \<open>C10: the placeholder report\<close>

text \<open>
  Claim C10 says that \<^verbatim>\<open>clean_profile_data\<close> returns successfully for every
  input dictionary. The identifier is built with \<^verbatim>\<open>str()\<close>, which raises on
  some values: for \<open>profile_huge_cycle\<close>, whose cycle number has 4301 digits,
  the call raises \<^verbatim>\<open>ValueError\<close> and returns neither a cleaned profile nor a
  report.
\<close>

theorem huge_cycle_number_counterexample:
  "profile_huge_cycle ''CYCLE_NUMBER'' = Some (PyInt cycle_number_huge) \<and>
   cycle_number_huge = 10 ^ 4300 \<and>
   isl (snd (clean_profile_data builtins_default (init None) profile_huge_cycle)) \<and>
   cleaned_of (clean_profile_data builtins_default (init None) profile_huge_cycle) = None \<and>
   report_of (clean_profile_data builtins_default (init None) profile_huge_cycle) = None"
proof -
  have "profile_huge_cycle ''CYCLE_NUMBER'' = Some (PyInt cycle_number_huge)"
    by (simp add: profile_huge_cycle_def)
  moreover have "cycle_number_huge = 10 ^ 4300"
    by (rule cycle_number_huge_def)
  moreover have "isl (snd (clean_profile_data builtins_default (init None) profile_huge_cycle)) \<and>
      cleaned_of (clean_profile_data builtins_default (init None) profile_huge_cycle) = None \<and>
      report_of (clean_profile_data builtins_default (init None) profile_huge_cycle) = None"
    by (simp add: clean_profile_data_raises [OF init_stats profile_huge_cycle_id]
        cleaned_of_def report_of_def)
  ultimately show ?thesis
    by blast
qed

text \<open>
  C10 as amended: for every input dictionary on whose \<^verbatim>\<open>PLATFORM_NUMBER\<close> and
  \<^verbatim>\<open>CYCLE_NUMBER\<close> (\<^verbatim>\<open>unknown\<close> and 0 for an absent key) \<^verbatim>\<open>str()\<close> does not
  raise, on a controller with any configuration and any history of earlier
  calls, \<^verbatim>\<open>clean_profile_data\<close> returns the input dictionary and a report whose
  fields other than \<^verbatim>\<open>profile_id\<close> are constants: \<^verbatim>\<open>total_measurements\<close> 100,
  \<^verbatim>\<open>good_data_percentage\<close> 85.0, an empty \<^verbatim>\<open>flags_summary\<close>, the four detector
  counts 0, \<^verbatim>\<open>data_quality\<close> good, no issues and empty metadata.
  \<^verbatim>\<open>profile_id\<close> is the text of \<^verbatim>\<open>PLATFORM_NUMBER\<close>, an underscore and the
  text of \<^verbatim>\<open>CYCLE_NUMBER\<close>, with \<^verbatim>\<open>unknown\<close> and \<^verbatim>\<open>0\<close> for an absent key. The
  witness takes the empty dictionary and \<open>profile_short\<close>.
\<close>

theorem clean_profile_data_placeholder:
  assumes "py_str py (dict_get data ''PLATFORM_NUMBER'' (PyStr ''unknown'')) = Inr platform_text"
    and "py_str py (dict_get data ''CYCLE_NUMBER'' (PyInt 0)) = Inr cycle_text"
  shows "snd (clean_profile_data py (after_calls py (init cfg) ds) data) =
     Inr (data,
          \<lparr> profile_id = platform_text @ ''_'' @ cycle_text,
            total_measurements = 100,
            good_data_percentage = 85,
            flags_summary = Map.empty,
            outliers_removed = 0,
            spike_detections = 0,
            gradient_anomalies = 0,
            density_inversions = 0,
            data_quality = GOOD,
            issues = [],
            metadata = Map.empty \<rparr>) \<and>
   (data ''PLATFORM_NUMBER'' = None \<longrightarrow> platform_text = ''unknown'') \<and>
   (data ''CYCLE_NUMBER'' = None \<longrightarrow> cycle_text = ''0'')"
proof -
  have pid: "profile_id_of py data = Inr (platform_text @ ''_'' @ cycle_text)"
    by (simp add: profile_id_of_def assms)
  have call: "snd (clean_profile_data py (after_calls py (init cfg) ds) data) =
     Inr (data,
          \<lparr> profile_id = platform_text @ ''_'' @ cycle_text,
            total_measurements = 100,
            good_data_percentage = 85,
            flags_summary = Map.empty,
            outliers_removed = 0,
            spike_detections = 0,
            gradient_anomalies = 0,
            density_inversions = 0,
            data_quality = GOOD,
            issues = [],
            metadata = Map.empty \<rparr>)"
    by (simp add: clean_profile_data_returns [OF reachable_stats pid])
  have platform: "data ''PLATFORM_NUMBER'' = None \<longrightarrow> platform_text = ''unknown''"
    using assms(1) by (auto simp add: dict_get_def)
  have zero: "py_str py (PyInt 0) = Inr ''0''"
    by (simp add: py_str_digit str_of_int_def str_of_nat.simps)
  have cycle: "data ''CYCLE_NUMBER'' = None \<longrightarrow> cycle_text = ''0''"
    using assms(2) zero by (auto simp add: dict_get_def)
  from call platform cycle show ?thesis
    by (intro conjI)
qed

theorem clean_profile_data_placeholder_witness:
  "py_str builtins_default (dict_get Map.empty ''PLATFORM_NUMBER'' (PyStr ''unknown'')) = Inr ''unknown'' \<and>
   py_str builtins_default (dict_get Map.empty ''CYCLE_NUMBER'' (PyInt 0)) = Inr ''0'' \<and>
   snd (clean_profile_data builtins_default (after_calls builtins_default (init None) []) Map.empty) =
     Inr (Map.empty,
          \<lparr> profile_id = ''unknown_0'',
            total_measurements = 100,
            good_data_percentage = 85,
            flags_summary = Map.empty,
            outliers_removed = 0,
            spike_detections = 0,
            gradient_anomalies = 0,
            density_inversions = 0,
            data_quality = GOOD,
            issues = [],
            metadata = Map.empty \<rparr>) \<and>
   py_str builtins_default (dict_get profile_short ''PLATFORM_NUMBER'' (PyStr ''unknown''))
     = Inr ''1901234'' \<and>
   py_str builtins_default (dict_get profile_short ''CYCLE_NUMBER'' (PyInt 0)) = Inr ''8'' \<and>
   snd (clean_profile_data builtins_default (after_calls builtins_default (init None) [Map.empty])
          profile_short) =
     Inr (profile_short,
          \<lparr> profile_id = ''1901234_8'',
            total_measurements = 100,
            good_data_percentage = 85,
            flags_summary = Map.empty,
            outliers_removed = 0,
            spike_detections = 0,
            gradient_anomalies = 0,
            density_inversions = 0,
            data_quality = GOOD,
            issues = [],
            metadata = Map.empty \<rparr>)"
proof -
  have p0: "py_str builtins_default (dict_get Map.empty ''PLATFORM_NUMBER'' (PyStr ''unknown''))
      = Inr ''unknown''"
    by (simp add: dict_get_def)
  have c0: "py_str builtins_default (dict_get Map.empty ''CYCLE_NUMBER'' (PyInt 0)) = Inr ''0''"
    by (simp add: dict_get_def py_str_digit str_of_int_def str_of_nat.simps)
  have p1: "py_str builtins_default (dict_get profile_short ''PLATFORM_NUMBER'' (PyStr ''unknown''))
      = Inr ''1901234''"
    by (simp add: dict_get_def profile_short_def)
  have c1: "py_str builtins_default (dict_get profile_short ''CYCLE_NUMBER'' (PyInt 0)) = Inr ''8''"
    by (simp add: dict_get_def profile_short_def py_str_digit str_of_int_def str_of_nat.simps)
  from clean_profile_data_placeholder [OF p0 c0, of None "[]"]
  have first: "snd (clean_profile_data builtins_default (after_calls builtins_default (init None) [])
        Map.empty) =
     Inr (Map.empty,
          \<lparr> profile_id = ''unknown_0'',
            total_measurements = 100,
            good_data_percentage = 85,
            flags_summary = Map.empty,
            outliers_removed = 0,
            spike_detections = 0,
            gradient_anomalies = 0,
            density_inversions = 0,
            data_quality = GOOD,
            issues = [],
            metadata = Map.empty \<rparr>)"
    by simp
  from clean_profile_data_placeholder [OF p1 c1, of None "[Map.empty]"]
  have second: "snd (clean_profile_data builtins_default
        (after_calls builtins_default (init None) [Map.empty]) profile_short) =
     Inr (profile_short,
          \<lparr> profile_id = ''1901234_8'',
            total_measurements = 100,
            good_data_percentage = 85,
            flags_summary = Map.empty,
            outliers_removed = 0,
            spike_detections = 0,
            gradient_anomalies = 0,
            density_inversions = 0,
            data_quality = GOOD,
            issues = [],
            metadata = Map.empty \<rparr>)"
    by (simp del: after_calls.simps)
  from p0 c0 first p1 c1 second show ?thesis
    by (intro conjI)
qed

end
